theory Spec2Isabelle
  imports Main
begin

section \<open>APC PDU monitor and control over SNMP: a shallow embedding\<close>

text \<open>
  The module drives a power distribution unit through the Python package netsnmp.
  Two classes make up the program: \<open>PDU\<close> (identity, device name, outlet names) and
  \<open>Outlet\<close> (name and power state of one outlet). Every method is a sequence of
  \<open>netsnmp.snmpget\<close> and \<open>netsnmp.snmpset\<close> calls; the package itself, the resolver of
  the socket module and the logger are outside the module and appear here as parameters.
\<close>

subsection \<open>Python values and exceptions\<close>

datatype pyval = PyNone | PyInt int | PyStr string

text \<open>
  The exceptions the module can raise: \<open>RuntimeError\<close> is raised by the module itself,
  \<open>NameError\<close> by the read of an unbound variable, \<open>TypeError\<close> and \<open>ValueError\<close> by
  \<open>int(...)\<close>, \<open>KeyError\<close> by a dictionary lookup, \<open>AttributeError\<close> by a method call on
  a value that has no such method, \<open>IndexError\<close> by a list index past the end,
  \<open>SocketError\<close> by the resolver.
\<close>

datatype error =
    RuntimeError string
  | NameError string
  | TypeError
  | ValueError
  | KeyError int
  | AttributeError string
  | IndexError
  | SocketError

text \<open>\<open>bool(x)\<close>: \<open>None\<close>, zero and the empty string are false.\<close>

fun py_bool :: "pyval \<Rightarrow> bool" where
  "py_bool PyNone = False"
| "py_bool (PyInt i) = (i \<noteq> 0)"
| "py_bool (PyStr s) = (s \<noteq> [])"

text \<open>
  \<open>int(x)\<close> on a string: blanks around the text are dropped, then an optional sign and at
  least one decimal digit must make up all of it; anything else is a \<open>ValueError\<close>.
  \<open>int(None)\<close> is a \<open>TypeError\<close>. The value of a digit is its place among the ten
  digit characters.
\<close>

definition py_isspace :: "char \<Rightarrow> bool" where
  "py_isspace c = (c = CHR '' '' \<or> c = CHR 0x09 \<or> c = CHR 0x0A \<or> c = CHR 0x0B
                   \<or> c = CHR 0x0C \<or> c = CHR 0x0D)"

definition strip :: "string \<Rightarrow> string" where
  "strip s = rev (dropWhile py_isspace (rev (dropWhile py_isspace s)))"

definition digit_of :: "char \<Rightarrow> nat option" where
  "digit_of c = map_of (zip ''0123456789'' [0, 1, 2, 3, 4, 5, 6, 7, 8, 9]) c"

fun digits_val :: "string \<Rightarrow> nat \<Rightarrow> nat option" where
  "digits_val [] acc = Some acc"
| "digits_val (c # cs) acc =
     (case digit_of c of None \<Rightarrow> None | Some d \<Rightarrow> digits_val cs (10 * acc + d))"

definition int_of_str :: "string \<Rightarrow> int option" where
  "int_of_str s =
     (case strip s of
        [] \<Rightarrow> None
      | c # cs \<Rightarrow>
          if c = CHR ''-'' then
            (if cs = [] then None else map_option (\<lambda>n. - int n) (digits_val cs 0))
          else if c = CHR ''+'' then
            (if cs = [] then None else map_option int (digits_val cs 0))
          else map_option int (digits_val (c # cs) 0))"

fun py_int :: "pyval \<Rightarrow> error + int" where
  "py_int PyNone = Inl TypeError"
| "py_int (PyInt i) = Inr i"
| "py_int (PyStr s) = (case int_of_str s of None \<Rightarrow> Inl ValueError | Some i \<Rightarrow> Inr i)"

text \<open>\<open>str(n)\<close> for an integer: its decimal digits, with a minus sign when negative.\<close>

fun str_nat :: "nat \<Rightarrow> string" where
  "str_nat n =
     (if n < 10 then [''0123456789'' ! n]
      else str_nat (n div 10) @ [''0123456789'' ! (n mod 10)])"

declare str_nat.simps [simp del]

definition str_int :: "int \<Rightarrow> string" where
  "str_int i = (if i < 0 then CHR ''-'' # str_nat (nat (- i)) else str_nat (nat i))"

text \<open>\<open>range(k)\<close>: the numbers \<open>0, ..., k - 1\<close>, none when \<open>k \<le> 0\<close>.\<close>

definition py_range :: "int \<Rightarrow> nat list" where
  "py_range k = [0..<nat k]"

subsection \<open>The transport: netsnmp\<close>

text \<open>
  \<open>netsnmp.Varbind(tag, iid, val, type)\<close>: the object identifier, the instance, and for a
  SET the value and its type. An argument that is not given is \<open>None\<close>.
\<close>

record Varbind =
  tag :: string
  iid :: string
  val :: pyval
  vtype :: "string option"

datatype kind = GET | SET

text \<open>One call of \<open>snmpget\<close> or \<open>snmpset\<close>, with its keyword arguments.\<close>

record request =
  kind :: kind
  var :: Varbind
  Version :: int
  DestHost :: string
  Community :: string

text \<open>
  The world is the sequence of requests sent so far, oldest first. The agent (the
  device behind the transport) answers a request given all the requests before it, which
  covers every deterministic device and every pattern of failures.

  \<open>snmpget\<close> returns a tuple with one entry for each Varbind it was given: the value as
  a string, or \<open>None\<close> when the exchange failed. Every call of the module passes one
  Varbind and takes entry 0, which is what \<open>snmpget\<close> returns here. \<open>snmpset\<close> returns a
  true value when the SET succeeded and a false one when it failed. Neither raises.
\<close>

type_synonym world = "request list"

type_synonym agent = "request list \<Rightarrow> request \<Rightarrow> pyval"

definition snmpget :: "agent \<Rightarrow> Varbind \<Rightarrow> int \<Rightarrow> string \<Rightarrow> string \<Rightarrow> world \<Rightarrow> pyval \<times> world" where
  "snmpget ag v ver host comm w =
     (let r = \<lparr>kind = GET, var = v, Version = ver, DestHost = host, Community = comm\<rparr>
      in (ag w r, w @ [r]))"

definition snmpset :: "agent \<Rightarrow> Varbind \<Rightarrow> int \<Rightarrow> string \<Rightarrow> string \<Rightarrow> world \<Rightarrow> pyval \<times> world" where
  "snmpset ag v ver host comm w =
     (let r = \<lparr>kind = SET, var = v, Version = ver, DestHost = host, Community = comm\<rparr>
      in (ag w r, w @ [r]))"

subsection \<open>Class PDU\<close>

text \<open>
  The attributes of a PDU object. \<open>hostname\<close> and \<open>hostIP\<close> are set first by the
  constructor; an identity attribute is \<open>None\<close> here as long as the object does not have
  it, and \<open>Some v\<close> once it was assigned the Python value \<open>v\<close>.
\<close>

record PDU =
  hostname :: string
  hostIP :: string
  model :: "pyval option"
  serial :: "pyval option"
  hw_rev :: "pyval option"
  fw_rev :: "pyval option"
  date :: "pyval option"
  name :: "pyval option"

text \<open>\<open>PDU._get_var\<close>: one GET, protocol version 2, community \<open>'public'\<close>.\<close>

definition PDU_get_var :: "agent \<Rightarrow> PDU \<Rightarrow> Varbind \<Rightarrow> world \<Rightarrow> pyval \<times> world" where
  "PDU_get_var ag self v w = snmpget ag v 2 (hostIP self) ''public'' w"

text \<open>\<open>PDU._get_ident\<close>: six GETs, each result assigned to its attribute.\<close>

definition PDU_get_ident :: "agent \<Rightarrow> PDU \<Rightarrow> world \<Rightarrow> PDU \<times> world" where
  "PDU_get_ident ag self w0 =
     (let (v1, w1) = PDU_get_var ag self
            \<lparr>tag = ''sPDUIdentModelNumber'', iid = ''0'', val = PyNone, vtype = None\<rparr> w0;
          self1 = self\<lparr>model := Some v1\<rparr>;
          (v2, w2) = PDU_get_var ag self1
            \<lparr>tag = ''sPDUIdentSerialNumber'', iid = ''0'', val = PyNone, vtype = None\<rparr> w1;
          self2 = self1\<lparr>serial := Some v2\<rparr>;
          (v3, w3) = PDU_get_var ag self2
            \<lparr>tag = ''sPDUIdentHardwareRev'', iid = ''0'', val = PyNone, vtype = None\<rparr> w2;
          self3 = self2\<lparr>hw_rev := Some v3\<rparr>;
          (v4, w4) = PDU_get_var ag self3
            \<lparr>tag = ''sPDUIdentFirmwareRev'', iid = ''0'', val = PyNone, vtype = None\<rparr> w3;
          self4 = self3\<lparr>fw_rev := Some v4\<rparr>;
          (v5, w5) = PDU_get_var ag self4
            \<lparr>tag = ''sPDUIdentDateOfManufacture'', iid = ''0'', val = PyNone, vtype = None\<rparr> w4;
          self5 = self4\<lparr>date := Some v5\<rparr>;
          (v6, w6) = PDU_get_var ag self5
            \<lparr>tag = ''sPDUMasterConfigPDUName'', iid = ''0'', val = PyNone, vtype = None\<rparr> w5;
          self6 = self5\<lparr>name := Some v6\<rparr>
      in (self6, w6))"

text \<open>
  \<open>PDU.set_name\<close>. The Varbind built from the argument is not assigned to any variable;
  the call of \<open>snmpset\<close> then reads the variable \<open>namevar\<close>, which is bound neither in
  the method nor in the module. Python evaluates the arguments of a call before the call,
  so the read raises \<open>NameError\<close> and \<open>snmpset\<close> is not reached.
\<close>

definition lookup_name :: "(string \<rightharpoonup> Varbind) \<Rightarrow> string \<Rightarrow> error + Varbind" where
  "lookup_name scope x = (case scope x of None \<Rightarrow> Inl (NameError x) | Some v \<Rightarrow> Inr v)"

definition PDU_set_name :: "agent \<Rightarrow> PDU \<Rightarrow> string \<Rightarrow> world \<Rightarrow> (error + pyval) \<times> world" where
  "PDU_set_name ag self nm w =
     (let unbound = \<lparr>tag = ''sPDUMasterConfigPDUName'', iid = ''0'', val = PyStr nm,
                     vtype = Some ''STRING''\<rparr>;
          scope = (Map.empty :: string \<rightharpoonup> Varbind)
      in case lookup_name scope ''namevar'' of
           Inl e \<Rightarrow> (Inl e, w)
         | Inr namevar \<Rightarrow>
             (let (r, w') = snmpset ag namevar 2 (hostIP self) ''private'' w
              in (Inr r, w')))"

text \<open>
  \<open>PDU.__init__\<close>. The resolver of the socket module is a parameter: \<open>gethostbyname\<close>
  gives the address of a host name and \<open>gethostbyaddr\<close> the primary host name of an
  address (entry 0 of its result); \<open>None\<close> stands for the socket error either raises.
  \<open>default_IP\<close> is the module's global, resolved when the module is loaded. An argument
  that is not given is \<open>None\<close>; \<open>if x:\<close> is false for \<open>None\<close> and for the empty string.
\<close>

record resolver =
  gethostbyname :: "string \<Rightarrow> string option"
  gethostbyaddr :: "string \<Rightarrow> string option"

fun truthy :: "string option \<Rightarrow> bool" where
  "truthy None = False"
| "truthy (Some s) = (s \<noteq> [])"

text \<open>The string an argument holds, read only where the argument is true.\<close>

fun arg_str :: "string option \<Rightarrow> string" where
  "arg_str None = []"
| "arg_str (Some s) = s"

text \<open>
  The first part of the constructor: \<open>hostname\<close> and \<open>hostIP\<close>, from the host name when
  one is given, else from the address when one is given, else from \<open>default_IP\<close>.
\<close>

definition resolve_host :: "resolver \<Rightarrow> string \<Rightarrow> string option \<Rightarrow> string option \<Rightarrow> error + PDU" where
  "resolve_host res default_IP hostname_arg hostIP_arg =
     (let blank = \<lparr>hostname = [], hostIP = [], model = None, serial = None, hw_rev = None,
                    fw_rev = None, date = None, name = None\<rparr>
      in if truthy hostname_arg then
           (case gethostbyname res (arg_str hostname_arg) of
              None \<Rightarrow> Inl SocketError
            | Some ip \<Rightarrow> Inr (blank\<lparr>hostname := arg_str hostname_arg, hostIP := ip\<rparr>))
         else if truthy hostIP_arg then
           (case gethostbyaddr res (arg_str hostIP_arg) of
              None \<Rightarrow> Inl SocketError
            | Some h \<Rightarrow> Inr (blank\<lparr>hostIP := arg_str hostIP_arg, hostname := h\<rparr>))
         else
           (case gethostbyaddr res default_IP of
              None \<Rightarrow> Inl SocketError
            | Some h \<Rightarrow> Inr (blank\<lparr>hostIP := default_IP, hostname := h\<rparr>)))"

text \<open>
  The second part: the rename when a name is given and not empty, then the identity
  fetch. An exception of the rename ends the constructor.
\<close>

definition PDU_init ::
  "resolver \<Rightarrow> string \<Rightarrow> agent \<Rightarrow> string option \<Rightarrow> string option \<Rightarrow> string option \<Rightarrow> world
     \<Rightarrow> (error + PDU) \<times> world" where
  "PDU_init res default_IP ag hostname_arg hostIP_arg name_arg w =
     (case resolve_host res default_IP hostname_arg hostIP_arg of
        Inl e \<Rightarrow> (Inl e, w)
      | Inr self \<Rightarrow>
          (case name_arg of
             None \<Rightarrow> (let (self', w') = PDU_get_ident ag self w in (Inr self', w'))
           | Some nm \<Rightarrow>
               if nm \<noteq> [] then
                 (case PDU_set_name ag self nm w of
                    (Inl e, w1) \<Rightarrow> (Inl e, w1)
                  | (Inr r, w1) \<Rightarrow>
                      (let (self', w') = PDU_get_ident ag self w1 in (Inr self', w')))
               else (let (self', w') = PDU_get_ident ag self w in (Inr self', w'))))"

text \<open>
  \<open>s.split()\<close>: the maximal runs of non-blank characters of \<open>s\<close>. On \<open>None\<close> the method
  does not exist.
\<close>

fun split_ws :: "string \<Rightarrow> string \<Rightarrow> string list" where
  "split_ws cur [] = (if cur = [] then [] else [cur])"
| "split_ws cur (c # cs) =
     (if py_isspace c then (if cur = [] then split_ws [] cs else cur # split_ws [] cs)
      else split_ws (cur @ [c]) cs)"

fun py_split :: "pyval \<Rightarrow> error + string list" where
  "py_split (PyStr s) = Inr (split_ws [] s)"
| "py_split PyNone = Inl (AttributeError ''split'')"
| "py_split (PyInt i) = Inl (AttributeError ''split'')"

text \<open>\<open>PDU.get_outlet_states\<close> and \<open>PDU.get_pending\<close>.\<close>

definition PDU_get_outlet_states :: "agent \<Rightarrow> PDU \<Rightarrow> world \<Rightarrow> (error + string list) \<times> world" where
  "PDU_get_outlet_states ag self w =
     (let (response, w') = PDU_get_var ag self
            \<lparr>tag = ''sPDUMasterState'', iid = ''0'', val = PyNone, vtype = None\<rparr> w
      in (py_split response, w'))"

definition PDU_get_pending :: "agent \<Rightarrow> PDU \<Rightarrow> world \<Rightarrow> (error + string list) \<times> world" where
  "PDU_get_pending ag self w =
     (let (response, w') = PDU_get_var ag self
            \<lparr>tag = ''sPDUMasterPending'', iid = ''0'', val = PyNone, vtype = None\<rparr> w
      in (py_split response, w'))"

text \<open>
  \<open>PDU.get_outlet_names\<close>. The loop body, for the remaining values of \<open>n\<close>: one GET of
  \<open>sPDUOutletCtlName\<close> at instance \<open>n + 1\<close>, stored in the dictionary under \<open>n + 1\<close>.
\<close>

fun get_outlet_names_loop ::
  "agent \<Rightarrow> PDU \<Rightarrow> nat list \<Rightarrow> (int \<rightharpoonup> pyval) \<Rightarrow> world \<Rightarrow> (int \<rightharpoonup> pyval) \<times> world" where
  "get_outlet_names_loop ag self [] names w = (names, w)"
| "get_outlet_names_loop ag self (n # ns) names w =
     (let index = int n + 1;
          namevar = \<lparr>tag = ''sPDUOutletCtlName'', iid = str_int index, val = PyNone,
                      vtype = None\<rparr>;
          (v, w') = snmpget ag namevar 2 (hostIP self) ''public'' w
      in get_outlet_names_loop ag self ns (names(index \<mapsto> v)) w')"

definition PDU_get_outlet_names ::
  "agent \<Rightarrow> PDU \<Rightarrow> world \<Rightarrow> (error + (int \<rightharpoonup> pyval)) \<times> world" where
  "PDU_get_outlet_names ag self w =
     (let (num_switches, w1) = PDU_get_var ag self
            \<lparr>tag = ''sPDUOutletConfigTableSize'', iid = ''0'', val = PyNone, vtype = None\<rparr> w
      in case py_int num_switches of
           Inl e \<Rightarrow> (Inl e, w1)
         | Inr k \<Rightarrow>
             (let (names, w2) = get_outlet_names_loop ag self (py_range k) Map.empty w1
              in (Inr names, w2)))"

text \<open>
  \<open>PDU.set_outlet_names\<close>. \<open>namelist[n]\<close> raises \<open>IndexError\<close> past the end of the list.
  The loop body: one SET of \<open>sPDUOutletName\<close> at instance \<open>n + 1\<close> with the n-th name
  and no type, community \<open>'private'\<close>; the truth value of what \<open>snmpset\<close> returned is
  stored under \<open>n + 1\<close>.
\<close>

definition py_index :: "'a list \<Rightarrow> nat \<Rightarrow> error + 'a" where
  "py_index xs n = (if n < length xs then Inr (xs ! n) else Inl IndexError)"

fun set_outlet_names_loop ::
  "agent \<Rightarrow> PDU \<Rightarrow> string list \<Rightarrow> nat list \<Rightarrow> (int \<rightharpoonup> bool) \<Rightarrow> world
     \<Rightarrow> (error + (int \<rightharpoonup> bool)) \<times> world" where
  "set_outlet_names_loop ag self namelist [] result w = (Inr result, w)"
| "set_outlet_names_loop ag self namelist (n # ns) result w =
     (let index = int n + 1
      in case py_index namelist n of
           Inl e \<Rightarrow> (Inl e, w)
         | Inr nm \<Rightarrow>
             (let namevar = \<lparr>tag = ''sPDUOutletName'', iid = str_int index, val = PyStr nm,
                              vtype = None\<rparr>;
                  (r, w') = snmpset ag namevar 2 (hostIP self) ''private'' w
              in set_outlet_names_loop ag self namelist ns (result(index \<mapsto> py_bool r)) w'))"

definition PDU_set_outlet_names ::
  "agent \<Rightarrow> PDU \<Rightarrow> string list \<Rightarrow> world \<Rightarrow> (error + (int \<rightharpoonup> bool)) \<times> world" where
  "PDU_set_outlet_names ag self namelist w =
     (let (v, w1) = PDU_get_var ag self
            \<lparr>tag = ''sPDUOutletConfigTableSize'', iid = ''0'', val = PyNone, vtype = None\<rparr> w
      in case py_int v of
           Inl e \<Rightarrow> (Inl e, w1)
         | Inr num_switches \<Rightarrow>
             if int (length namelist) \<noteq> num_switches
             then (Inl (RuntimeError ''Incorrect number of names.''), w1)
             else set_outlet_names_loop ag self namelist (py_range num_switches) Map.empty w1)"

subsection \<open>Class Outlet\<close>

text \<open>
  The class attribute \<open>Outlet.state\<close>, the table from state codes to their text. An
  instance gets an attribute of the same name in \<open>get_state\<close>; the table is always read
  through the class.
\<close>

definition Outlet_state :: "int \<rightharpoonup> string" where
  "Outlet_state = [1 \<mapsto> ''on'', 2 \<mapsto> ''off'', 3 \<mapsto> ''rebooting'', 4 \<mapsto> ''error'']"

text \<open>
  The attributes of an Outlet object: \<open>number\<close> holds \<open>str(number)\<close>; \<open>outlet_name\<close> is
  the attribute \<open>name\<close>, \<open>state\<close> the instance attribute; each is \<open>None\<close> as long as the
  object does not have it.
\<close>

record Outlet =
  pdu :: PDU
  number :: string
  outlet_name :: "pyval option"
  state :: "int option"
  status :: "string option"

text \<open>\<open>Outlet.get_name\<close>: one GET of \<open>sPDUOutletCtlName\<close> at the outlet's instance.\<close>

definition Outlet_get_name :: "agent \<Rightarrow> Outlet \<Rightarrow> world \<Rightarrow> pyval \<times> Outlet \<times> world" where
  "Outlet_get_name ag self w =
     (let namevar = \<lparr>tag = ''sPDUOutletCtlName'', iid = number self, val = PyNone,
                      vtype = None\<rparr>;
          (v, w') = snmpget ag namevar 2 (hostIP (pdu self)) ''public'' w
      in (v, self\<lparr>outlet_name := Some v\<rparr>, w'))"

text \<open>\<open>Outlet.set_name\<close>: one SET of \<open>sPDUOutletName\<close>, then \<open>get_name\<close>.\<close>

definition Outlet_set_name :: "agent \<Rightarrow> Outlet \<Rightarrow> string \<Rightarrow> world \<Rightarrow> bool \<times> Outlet \<times> world" where
  "Outlet_set_name ag self nm w =
     (let namevar = \<lparr>tag = ''sPDUOutletName'', iid = number self, val = PyStr nm,
                      vtype = Some ''STRING''\<rparr>;
          (result, w1) = snmpset ag namevar 2 (hostIP (pdu self)) ''private'' w;
          (v, self', w2) = Outlet_get_name ag self w1
      in (py_bool result, self', w2))"

text \<open>
  \<open>Outlet.get_state\<close>: one GET of \<open>sPDUOutletCtl\<close> at the outlet's instance; \<open>int\<close> of the
  reply is assigned to \<open>state\<close>, then looked up in the table, which raises \<open>KeyError\<close>
  for a code that is not a key.
\<close>

definition Outlet_get_state ::
  "agent \<Rightarrow> Outlet \<Rightarrow> world \<Rightarrow> (error + int \<times> string) \<times> Outlet \<times> world" where
  "Outlet_get_state ag self w =
     (let statvar = \<lparr>tag = ''sPDUOutletCtl'', iid = number self, val = PyNone, vtype = None\<rparr>;
          (v, w') = snmpget ag statvar 2 (hostIP (pdu self)) ''public'' w
      in case py_int v of
           Inl e \<Rightarrow> (Inl e, self, w')
         | Inr c \<Rightarrow>
             (let self1 = self\<lparr>state := Some c\<rparr>
              in case Outlet_state c of
                   None \<Rightarrow> (Inl (KeyError c), self1, w')
                 | Some label \<Rightarrow> (Inr (c, label), self1\<lparr>status := Some label\<rparr>, w')))"

text \<open>
  \<open>Outlet.set_state\<close>: value 1 for a true argument and 2 for a false one, one SET of
  \<open>sPDUOutletCtl\<close> with community \<open>'private'\<close>, then \<open>get_state\<close>; the result is the truth
  value of what \<open>snmpset\<close> returned.
\<close>

definition Outlet_set_state ::
  "agent \<Rightarrow> Outlet \<Rightarrow> bool \<Rightarrow> world \<Rightarrow> (error + bool) \<times> Outlet \<times> world" where
  "Outlet_set_state ag self st w =
     (let value = (if st then 1 else 2);
          statvar = \<lparr>tag = ''sPDUOutletCtl'', iid = number self, val = PyInt value,
                      vtype = None\<rparr>;
          (r, w1) = snmpset ag statvar 2 (hostIP (pdu self)) ''private'' w;
          result = py_bool r
      in case Outlet_get_state ag self w1 of
           (Inl e, self', w2) \<Rightarrow> (Inl e, self', w2)
         | (Inr cl, self', w2) \<Rightarrow> (Inr result, self', w2))"

text \<open>
  \<open>Outlet.__init__\<close>: \<open>get_name\<close>, the logger named after the module and the name (the
  concatenation raises \<open>TypeError\<close> unless the name is a string), then \<open>get_state\<close>.
\<close>

definition Outlet_init :: "agent \<Rightarrow> PDU \<Rightarrow> int \<Rightarrow> world \<Rightarrow> (error + Outlet) \<times> world" where
  "Outlet_init ag p num w =
     (let self = \<lparr>pdu = p, number = str_int num, outlet_name = None, state = None,
                   status = None\<rparr>;
          (v, self1, w1) = Outlet_get_name ag self w
      in case v of
           PyStr s \<Rightarrow>
             (case Outlet_get_state ag self1 w1 of
                (Inl e, self2, w2) \<Rightarrow> (Inl e, w2)
              | (Inr cl, self2, w2) \<Rightarrow> (Inr self2, w2))
         | PyNone \<Rightarrow> (Inl TypeError, w1)
         | PyInt i \<Rightarrow> (Inl TypeError, w1))"

section \<open>Requests on the wire\<close>

text \<open>
  The requests the methods build, written out once: a GET as \<open>PDU._get_var\<close> and the
  direct calls of \<open>snmpget\<close> send it, and a SET as the calls of \<open>snmpset\<close> send it.
\<close>

definition get_request :: "PDU \<Rightarrow> string \<Rightarrow> string \<Rightarrow> request" where
  "get_request self t i =
     \<lparr>kind = GET, var = \<lparr>tag = t, iid = i, val = PyNone, vtype = None\<rparr>, Version = 2,
      DestHost = hostIP self, Community = ''public''\<rparr>"

definition set_request :: "PDU \<Rightarrow> string \<Rightarrow> string \<Rightarrow> pyval \<Rightarrow> string option \<Rightarrow> request" where
  "set_request self t i v ty =
     \<lparr>kind = SET, var = \<lparr>tag = t, iid = i, val = v, vtype = ty\<rparr>, Version = 2,
      DestHost = hostIP self, Community = ''private''\<rparr>"

text \<open>The GET of the outlet table size, and the GET and SET of the name of outlet \<open>i\<close>.\<close>

definition table_size_get :: "PDU \<Rightarrow> request" where
  "table_size_get self = get_request self ''sPDUOutletConfigTableSize'' ''0''"

definition outlet_name_get :: "PDU \<Rightarrow> int \<Rightarrow> request" where
  "outlet_name_get self i = get_request self ''sPDUOutletCtlName'' (str_int i)"

definition outlet_name_set :: "PDU \<Rightarrow> string list \<Rightarrow> int \<Rightarrow> request" where
  "outlet_name_set self namelist i =
     set_request self ''sPDUOutletName'' (str_int i) (PyStr (namelist ! nat (i - 1))) None"

text \<open>The GET and the SET of the state of an outlet.\<close>

definition state_get :: "Outlet \<Rightarrow> request" where
  "state_get self = get_request (pdu self) ''sPDUOutletCtl'' (number self)"

definition state_set :: "Outlet \<Rightarrow> bool \<Rightarrow> request" where
  "state_set self st =
     set_request (pdu self) ''sPDUOutletCtl'' (number self) (PyInt (if st then 1 else 2)) None"

text \<open>
  A request carries the community the module writes in its text: \<open>'public'\<close> in a GET,
  \<open>'private'\<close> in a SET. \<open>sent w w'\<close> are the requests added to the world \<open>w\<close> by an
  operation that left the world \<open>w'\<close>.
\<close>

definition fixed_community :: "request \<Rightarrow> bool" where
  "fixed_community r = (Community r = (case kind r of GET \<Rightarrow> ''public'' | SET \<Rightarrow> ''private''))"

definition sent :: "world \<Rightarrow> world \<Rightarrow> request list" where
  "sent w w' = drop (length w) w'"

section \<open>A sample device\<close>

text \<open>
  A PDU with three outlets. The GET of the serial number and the GET of the name of
  outlet 2 fail, the SET of the name of outlet 2 fails, outlet 3 reports the state code 7
  and every other outlet reports 2 (off), whatever was set before.
\<close>

definition demo_agent :: agent where
  "demo_agent hist r =
     (let t = tag (var r); i = iid (var r)
      in case kind r of
           SET \<Rightarrow> (if t = ''sPDUOutletName'' \<and> i = ''2'' then PyInt 0 else PyInt 1)
         | GET \<Rightarrow>
             if t = ''sPDUOutletConfigTableSize'' then PyStr ''3''
             else if t = ''sPDUOutletCtlName'' then
               (if i = ''2'' then PyNone else PyStr (''outlet '' @ i))
             else if t = ''sPDUOutletCtl'' then (if i = ''3'' then PyStr ''7'' else PyStr ''2'')
             else if t = ''sPDUIdentModelNumber'' then PyStr ''AP7900''
             else if t = ''sPDUIdentSerialNumber'' then PyNone
             else PyStr ''dto'')"

definition demo_resolver :: resolver where
  "demo_resolver =
     \<lparr>gethostbyname = (\<lambda>h. if h = ''pdu'' then Some ''192.168.1.50'' else None),
      gethostbyaddr = (\<lambda>a. if a = ''192.168.1.50'' then Some ''pdu'' else None)\<rparr>"

definition demo_pdu :: PDU where
  "demo_pdu =
     \<lparr>hostname = ''pdu'', hostIP = ''192.168.1.50'', model = Some (PyStr ''AP7900''),
      serial = Some PyNone, hw_rev = Some (PyStr ''dto''), fw_rev = Some (PyStr ''dto''),
      date = Some (PyStr ''dto''), name = Some (PyStr ''dto'')\<rparr>"

definition other_pdu :: PDU where
  "other_pdu = demo_pdu\<lparr>hostname := ''pdu2'', hostIP := ''10.0.0.7''\<rparr>"

definition demo_outlet :: "string \<Rightarrow> Outlet" where
  "demo_outlet i =
     \<lparr>pdu = demo_pdu, number = i, outlet_name = Some (PyStr (''outlet '' @ i)),
      state = Some 2, status = Some ''off''\<rparr>"

definition demo_names :: "string list" where
  "demo_names = [''Rack Fan'', ''TCT'', ''gpu2 a'']"

section \<open>What each call sends and returns\<close>

lemma PDU_get_var_eq:
  "PDU_get_var ag self \<lparr>tag = t, iid = i, val = PyNone, vtype = None\<rparr> w =
     (ag w (get_request self t i), w @ [get_request self t i])"
  by (simp add: PDU_get_var_def snmpget_def get_request_def Let_def)

lemma snmpget_eq:
  "snmpget ag \<lparr>tag = t, iid = i, val = PyNone, vtype = None\<rparr> 2 (hostIP self) ''public'' w =
     (ag w (get_request self t i), w @ [get_request self t i])"
  by (simp add: snmpget_def get_request_def Let_def)

lemma snmpset_eq:
  "snmpset ag \<lparr>tag = t, iid = i, val = v, vtype = ty\<rparr> 2 (hostIP self) ''private'' w =
     (ag w (set_request self t i v ty), w @ [set_request self t i v ty])"
  by (simp add: snmpset_def set_request_def Let_def)

lemma sent_append [simp]: "sent w (w @ rs) = rs"
  by (simp add: sent_def)

lemma sent_same [simp]: "sent w w = []"
  by (simp add: sent_def)

lemma fixed_get [simp]: "fixed_community (get_request p t i)"
  by (simp add: fixed_community_def get_request_def)

lemma fixed_set [simp]: "fixed_community (set_request p t i v ty)"
  by (simp add: fixed_community_def set_request_def)

lemma PDU_set_name_eq:
  "PDU_set_name ag self nm w = (Inl (NameError ''namevar''), w)"
  by (simp add: PDU_set_name_def lookup_name_def)

lemma PDU_get_ident_eq:
  "PDU_get_ident ag self w =
     (let r1 = get_request self ''sPDUIdentModelNumber'' ''0'';
          r2 = get_request self ''sPDUIdentSerialNumber'' ''0'';
          r3 = get_request self ''sPDUIdentHardwareRev'' ''0'';
          r4 = get_request self ''sPDUIdentFirmwareRev'' ''0'';
          r5 = get_request self ''sPDUIdentDateOfManufacture'' ''0'';
          r6 = get_request self ''sPDUMasterConfigPDUName'' ''0''
      in (self\<lparr>model := Some (ag w r1),
                serial := Some (ag (w @ [r1]) r2),
                hw_rev := Some (ag (w @ [r1, r2]) r3),
                fw_rev := Some (ag (w @ [r1, r2, r3]) r4),
                date := Some (ag (w @ [r1, r2, r3, r4]) r5),
                name := Some (ag (w @ [r1, r2, r3, r4, r5]) r6)\<rparr>,
          w @ [r1, r2, r3, r4, r5, r6]))"
  by (simp add: PDU_get_ident_def PDU_get_var_eq Let_def get_request_def)

subsection \<open>The two loops over the outlets\<close>

text \<open>
  Each loop is unfolded from its last iteration, which gives its result on
  \<open>range(m)\<close> in closed form: the entry of outlet \<open>i\<close> is the agent's answer to the
  request of outlet \<open>i\<close> after the requests of the outlets before it.
\<close>

lemma upto_snoc: "[1..int (Suc m)] = [1..int m] @ [int m + 1]"
  using upto_rec2 [of 1 "int m + 1"] by (simp add: add.commute)

lemma upto_nat: "[1..int (nat k)] = [1..k]"
  by (cases "0 \<le> k") simp_all

lemma get_loop_snoc:
  "get_outlet_names_loop ag self (ns @ [n]) names w =
     (let (names', w') = get_outlet_names_loop ag self ns names w;
          r = outlet_name_get self (int n + 1)
      in (names'(int n + 1 \<mapsto> ag w' r), w' @ [r]))"
  by (induction ns arbitrary: names w)
     (simp_all add: snmpget_eq outlet_name_get_def split_def Let_def)

lemma get_loop_upt:
  "get_outlet_names_loop ag self [0..<m] Map.empty w =
     ((\<lambda>i. if 1 \<le> i \<and> i \<le> int m
            then Some (ag (w @ map (outlet_name_get self) [1..i - 1]) (outlet_name_get self i))
            else None),
      w @ map (outlet_name_get self) [1..int m])"
proof (induction m)
  case 0
  show ?case by (simp add: fun_eq_iff)
next
  case (Suc m)
  show ?case
    unfolding upt_Suc_append [OF le0] get_loop_snoc Suc.IH upto_snoc
    by (auto simp: fun_eq_iff Let_def)
qed

lemma set_loop_snoc:
  "set_outlet_names_loop ag self nl (ns @ [n]) result w =
     (case set_outlet_names_loop ag self nl ns result w of
        (Inl e, w') \<Rightarrow> (Inl e, w')
      | (Inr result', w') \<Rightarrow>
          (case py_index nl n of
             Inl e \<Rightarrow> (Inl e, w')
           | Inr nm \<Rightarrow>
               (let r = set_request self ''sPDUOutletName'' (str_int (int n + 1)) (PyStr nm) None
                in (Inr (result'(int n + 1 \<mapsto> py_bool (ag w' r))), w' @ [r]))))"
  by (induction ns arbitrary: result w)
     (simp_all add: snmpset_eq split_def Let_def split: sum.splits)

lemma set_loop_upt:
  "m \<le> length nl \<Longrightarrow>
   set_outlet_names_loop ag self nl [0..<m] Map.empty w =
     (Inr (\<lambda>i. if 1 \<le> i \<and> i \<le> int m
               then Some (py_bool (ag (w @ map (outlet_name_set self nl) [1..i - 1])
                                      (outlet_name_set self nl i)))
               else None),
      w @ map (outlet_name_set self nl) [1..int m])"
proof (induction m)
  case 0
  show ?case by (simp add: fun_eq_iff)
next
  case (Suc m)
  from Suc.prems have m: "m \<le> length nl" and lt: "m < length nl" by simp_all
  show ?case
    unfolding upt_Suc_append [OF le0] set_loop_snoc Suc.IH [OF m] upto_snoc
    using lt by (auto simp: fun_eq_iff Let_def py_index_def outlet_name_set_def)
qed

lemma PDU_get_outlet_names_eq:
  "PDU_get_outlet_names ag self w =
     (case py_int (ag w (table_size_get self)) of
        Inl e \<Rightarrow> (Inl e, w @ [table_size_get self])
      | Inr k \<Rightarrow>
          (Inr (\<lambda>i. if 1 \<le> i \<and> i \<le> k
                    then Some (ag (w @ table_size_get self # map (outlet_name_get self) [1..i - 1])
                                  (outlet_name_get self i))
                    else None),
           w @ table_size_get self # map (outlet_name_get self) [1..k]))"
  by (auto simp: PDU_get_outlet_names_def PDU_get_var_eq table_size_get_def py_range_def
        get_loop_upt upto_nat fun_eq_iff split: sum.splits)

lemma PDU_set_outlet_names_eq:
  "PDU_set_outlet_names ag self nl w =
     (case py_int (ag w (table_size_get self)) of
        Inl e \<Rightarrow> (Inl e, w @ [table_size_get self])
      | Inr k \<Rightarrow>
          if int (length nl) \<noteq> k
          then (Inl (RuntimeError ''Incorrect number of names.''), w @ [table_size_get self])
          else
            (Inr (\<lambda>i. if 1 \<le> i \<and> i \<le> k
                      then Some (py_bool (ag (w @ table_size_get self #
                                                map (outlet_name_set self nl) [1..i - 1])
                                             (outlet_name_set self nl i)))
                      else None),
             w @ table_size_get self # map (outlet_name_set self nl) [1..k]))"
  by (auto simp: PDU_set_outlet_names_def PDU_get_var_eq table_size_get_def py_range_def
        set_loop_upt fun_eq_iff split: sum.splits)

subsection \<open>The outlet methods\<close>

lemma Outlet_get_state_result:
  "fst (Outlet_get_state ag self w) =
     (case py_int (ag w (state_get self)) of
        Inl e \<Rightarrow> Inl e
      | Inr c \<Rightarrow>
          if c = 1 then Inr (1, ''on'')
          else if c = 2 then Inr (2, ''off'')
          else if c = 3 then Inr (3, ''rebooting'')
          else if c = 4 then Inr (4, ''error'')
          else Inl (KeyError c))"
  by (simp add: Outlet_get_state_def snmpget_eq state_get_def Outlet_state_def Let_def
        split: sum.splits)

lemma Outlet_get_state_world:
  "snd (snd (Outlet_get_state ag self w)) = w @ [state_get self]"
  by (simp add: Outlet_get_state_def snmpget_eq state_get_def Let_def
        split: sum.splits option.splits)

lemma Outlet_set_state_snmpset:
  "snmpset ag \<lparr>tag = ''sPDUOutletCtl'', iid = number self,
       val = PyInt (if st then 1 else 2), vtype = None\<rparr> 2 (hostIP (pdu self)) ''private'' w =
     (ag w (state_set self st), w @ [state_set self st])"
  by (simp add: snmpset_eq state_set_def)

lemma Outlet_set_state_world:
  "snd (snd (Outlet_set_state ag self st w)) = w @ [state_set self st, state_get self]"
proof -
  let ?w1 = "w @ [state_set self st]"
  obtain a b c where abc: "Outlet_get_state ag self ?w1 = (a, b, c)"
    by (cases "Outlet_get_state ag self ?w1") auto
  with Outlet_get_state_world [of ag self ?w1] have c: "c = ?w1 @ [state_get self]" by simp
  have "snd (snd (Outlet_set_state ag self st w)) = c"
    unfolding Outlet_set_state_def Let_def
    by (simp only: Outlet_set_state_snmpset split: prod.splits) (simp add: abc split: sum.splits)
  with c show ?thesis by simp
qed

lemma Outlet_set_state_result:
  assumes "fst (Outlet_get_state ag self (w @ [state_set self st])) = Inr cl"
  shows "fst (Outlet_set_state ag self st w) = Inr (py_bool (ag w (state_set self st)))"
proof -
  let ?w1 = "w @ [state_set self st]"
  obtain a b c where abc: "Outlet_get_state ag self ?w1 = (a, b, c)"
    by (cases "Outlet_get_state ag self ?w1") auto
  with assms have a: "a = Inr cl" by simp
  show ?thesis
    unfolding Outlet_set_state_def Let_def
    by (simp only: Outlet_set_state_snmpset split: prod.splits) (simp add: abc a)
qed

lemma Outlet_get_name_eq:
  "Outlet_get_name ag self w =
     (ag w (get_request (pdu self) ''sPDUOutletCtlName'' (number self)),
      self\<lparr>outlet_name := Some (ag w (get_request (pdu self) ''sPDUOutletCtlName'' (number self)))\<rparr>,
      w @ [get_request (pdu self) ''sPDUOutletCtlName'' (number self)])"
  by (simp add: Outlet_get_name_def snmpget_eq Let_def)

lemma Outlet_set_name_world:
  "snd (snd (Outlet_set_name ag self nm w)) =
     w @ [set_request (pdu self) ''sPDUOutletName'' (number self) (PyStr nm) (Some ''STRING''),
          get_request (pdu self) ''sPDUOutletCtlName'' (number self)]"
  by (simp add: Outlet_set_name_def snmpset_eq Outlet_get_name_eq Let_def)

subsection \<open>The constructors\<close>

lemma PDU_get_ident_world:
  "\<exists>rs. snd (PDU_get_ident ag self w) = w @ rs \<and> list_all fixed_community rs"
  by (simp add: PDU_get_ident_def PDU_get_var_eq Let_def)

lemma PDU_init_world:
  "\<exists>rs. snd (PDU_init res d ag h ip nm w) = w @ rs \<and> list_all fixed_community rs"
proof (cases "resolve_host res d h ip")
  case (Inl e)
  then show ?thesis by (simp add: PDU_init_def)
next
  case (Inr self)
  obtain rs where rs: "snd (PDU_get_ident ag self w) = w @ rs" "list_all fixed_community rs"
    using PDU_get_ident_world by blast
  show ?thesis
  proof (cases "nm = None \<or> nm = Some []")
    case True
    with Inr rs show ?thesis by (auto simp: PDU_init_def split_def)
  next
    case False
    then obtain c cs where "nm = Some (c # cs)" by (cases nm; cases "the nm") auto
    with Inr show ?thesis by (simp add: PDU_init_def PDU_set_name_eq)
  qed
qed

lemma Outlet_init_tail:
  "snd (case Outlet_get_state ag s w1 of
          (Inl e, self2, x) \<Rightarrow> (Inl e, x)
        | (Inr cl, self2, x) \<Rightarrow> (Inr self2, x)) = w1 @ [state_get s]"
proof -
  obtain a b c where abc: "Outlet_get_state ag s w1 = (a, b, c)"
    by (cases "Outlet_get_state ag s w1") auto
  with Outlet_get_state_world [of ag s w1] have "c = w1 @ [state_get s]" by simp
  with abc show ?thesis by (cases a) simp_all
qed

lemma Outlet_init_world:
  "\<exists>rs. snd (Outlet_init ag p num w) = w @ rs \<and> list_all fixed_community rs"
  by (cases "ag w (get_request p ''sPDUOutletCtlName'' (str_int num))")
     (simp_all add: Outlet_init_def Outlet_get_name_eq Let_def Outlet_init_tail state_get_def)

subsection \<open>The sample device, evaluated\<close>

lemma demo_table_size: "py_int (demo_agent w (table_size_get p)) = Inr 3"
  by (simp add: demo_agent_def table_size_get_def get_request_def int_of_str_def strip_def
        py_isspace_def digit_of_def)

lemma str_int_small:
  "str_int 1 = ''1''" "str_int 2 = ''2''" "str_int 3 = ''3''"
  by (simp_all add: str_int_def str_nat.simps)

lemma upto_3: "[1..3::int] = [1, 2, 3]"
  by (simp add: upto.simps [of 1])

lemma atLeastAtMost_3: "{1..3::int} = {1, 2, 3}"
  unfolding set_upto [symmetric] upto_3 by simp

section \<open>The claims\<close>

subsection \<open>Bulk rename: \<open>PDU.set_outlet_names\<close>\<close>

text \<open>
  C1. When the device reports a table size \<open>k\<close> and the list of names has another length,
  \<open>set_outlet_names\<close> raises its validation error (the \<open>RuntimeError\<close> with the text
  "Incorrect number of names.") and the only request it has sent is the GET of the table
  size: no SET is issued, so no outlet name is written.
\<close>

theorem set_outlet_names_wrong_length:
  assumes "py_int (ag w (table_size_get self)) = Inr k"
    and "int (length namelist) \<noteq> k"
  shows "PDU_set_outlet_names ag self namelist w =
           (Inl (RuntimeError ''Incorrect number of names.''), w @ [table_size_get self])
         \<and> filter (\<lambda>r. kind r = SET) (snd (PDU_set_outlet_names ag self namelist w)) =
             filter (\<lambda>r. kind r = SET) w"
  using assms by (simp add: PDU_set_outlet_names_eq table_size_get_def get_request_def)

text \<open>Two names for the sample device, which has three outlets.\<close>

theorem set_outlet_names_wrong_length_witness:
  "PDU_set_outlet_names demo_agent demo_pdu [''Rack Fan'', ''TCT''] [] =
     (Inl (RuntimeError ''Incorrect number of names.''), [table_size_get demo_pdu])
   \<and> filter (\<lambda>r. kind r = SET)
        (snd (PDU_set_outlet_names demo_agent demo_pdu [''Rack Fan'', ''TCT''] [])) = []"
proof -
  have h1: "py_int (demo_agent [] (table_size_get demo_pdu)) = Inr 3"
    by (rule demo_table_size)
  have h2: "int (length [''Rack Fan'', ''TCT'']) \<noteq> 3" by simp
  show ?thesis
    using set_outlet_names_wrong_length
      [where ag = demo_agent and w = "[]" and self = demo_pdu and k = 3
         and namelist = "[''Rack Fan'', ''TCT'']", OF h1 h2]
    by (simp add: table_size_get_def get_request_def)
qed

text \<open>
  C2. When the list has as many names as the device reports outlets, \<open>set_outlet_names\<close>
  returns a dictionary and has sent, after the GET of the table size, exactly one SET for
  each outlet, in the order of the indices \<open>1..N\<close>, whatever the SETs answered. The keys
  of the dictionary are exactly \<open>1..N\<close>, and the entry of index \<open>i\<close> is the truth value
  of the answer to the SET of outlet \<open>i\<close>: false exactly for the SETs that failed.
\<close>

theorem set_outlet_names_per_outlet:
  assumes "py_int (ag w (table_size_get self)) = Inr (int (length namelist))"
  shows "\<exists>result.
           PDU_set_outlet_names ag self namelist w =
             (Inr result,
              w @ table_size_get self #
                  map (outlet_name_set self namelist) [1..int (length namelist)])
           \<and> dom result = {1..int (length namelist)}
           \<and> (\<forall>i\<in>{1..int (length namelist)}.
                 result i =
                   Some (py_bool (ag (w @ table_size_get self #
                                        map (outlet_name_set self namelist) [1..i - 1])
                                     (outlet_name_set self namelist i))))"
  using assms by (auto simp: PDU_set_outlet_names_eq dom_def)

text \<open>
  Three names for the sample device, whose SET of outlet 2 fails: three SETs are sent,
  index 2 maps to false and the two others to true.
\<close>

theorem set_outlet_names_per_outlet_witness:
  "\<exists>result.
     PDU_set_outlet_names demo_agent demo_pdu [''Rack Fan'', ''TCT'', ''gpu2 a''] [] =
       (Inr result,
        [table_size_get demo_pdu,
         set_request demo_pdu ''sPDUOutletName'' ''1'' (PyStr ''Rack Fan'') None,
         set_request demo_pdu ''sPDUOutletName'' ''2'' (PyStr ''TCT'') None,
         set_request demo_pdu ''sPDUOutletName'' ''3'' (PyStr ''gpu2 a'') None])
     \<and> dom result = {1, 2, 3}
     \<and> result 1 = Some True \<and> result 2 = Some False \<and> result 3 = Some True"
proof -
  let ?nl = "[''Rack Fan'', ''TCT'', ''gpu2 a'']"
  have h: "py_int (demo_agent [] (table_size_get demo_pdu)) = Inr (int (length ?nl))"
    by (simp add: demo_table_size)
  from set_outlet_names_per_outlet
    [where ag = demo_agent and w = "[]" and self = demo_pdu and namelist = ?nl, OF h] obtain
    result where
    r: "PDU_set_outlet_names demo_agent demo_pdu ?nl [] =
          (Inr result, [] @ table_size_get demo_pdu #
             map (outlet_name_set demo_pdu ?nl) [1..int (length ?nl)])"
    and d: "dom result = {1..int (length ?nl)}"
    and v: "\<forall>i\<in>{1..int (length ?nl)}. result i =
              Some (py_bool (demo_agent ([] @ table_size_get demo_pdu #
                       map (outlet_name_set demo_pdu ?nl) [1..i - 1])
                     (outlet_name_set demo_pdu ?nl i)))"
    by blast
  have v1: "result 1 = Some True" and v2: "result 2 = Some False" and v3: "result 3 = Some True"
    using v by (simp_all add: upto_3 atLeastAtMost_3 demo_agent_def outlet_name_set_def
        set_request_def str_int_small)
  show ?thesis
    using r d v1 v2 v3 by (simp add: upto_3 atLeastAtMost_3 outlet_name_set_def str_int_small)
qed

subsection \<open>Outlet state: \<open>Outlet.get_state\<close> and \<open>Outlet.set_state\<close>\<close>

text \<open>
  C3. \<open>get_state\<close> returns a pair only for a reply that is one of the codes 1, 2, 3, 4,
  and the pair is the code with its text from the fixed table (on, off, rebooting,
  error). For every other integer reply it raises, with the \<open>KeyError\<close> of the table
  lookup that carries the code: no text is made up for it. A reply that is not an integer
  raises the error of \<open>int\<close>.
\<close>

theorem get_state_decode:
  "fst (Outlet_get_state ag self w) =
     (case py_int (ag w (state_get self)) of
        Inl e \<Rightarrow> Inl e
      | Inr c \<Rightarrow>
          if c = 1 then Inr (1, ''on'')
          else if c = 2 then Inr (2, ''off'')
          else if c = 3 then Inr (3, ''rebooting'')
          else if c = 4 then Inr (4, ''error'')
          else Inl (KeyError c))"
  by (rule Outlet_get_state_result)

text \<open>Outlet 1 of the sample device reports 2, outlet 3 reports the code 7.\<close>

theorem get_state_decode_witness:
  "fst (Outlet_get_state demo_agent (demo_outlet ''1'') []) = Inr (2, ''off'')
   \<and> fst (Outlet_get_state demo_agent (demo_outlet ''3'') []) = Inl (KeyError 7)"
  using get_state_decode [of demo_agent "demo_outlet ''1''" "[]"]
    get_state_decode [of demo_agent "demo_outlet ''3''" "[]"]
  by (simp add: demo_agent_def demo_outlet_def state_get_def get_request_def int_of_str_def
        strip_def py_isspace_def digit_of_def)

text \<open>
  C6. \<open>set_state\<close> sends exactly one SET, of the value 1 for a true argument and 2 for a
  false one, with the community \<open>'private'\<close>, and then one GET of the state. Whenever the
  state read back is any of the four codes, equal to the requested one or not, the
  method returns the truth value of the answer to the SET.
\<close>

theorem set_state_returns_set_outcome:
  assumes "py_int (ag (w @ [state_set self st]) (state_get self)) = Inr c"
    and "c \<in> {1, 2, 3, 4}"
  shows "fst (Outlet_set_state ag self st w) = Inr (py_bool (ag w (state_set self st)))
         \<and> snd (snd (Outlet_set_state ag self st w)) = w @ [state_set self st, state_get self]
         \<and> kind (state_set self st) = SET
         \<and> val (var (state_set self st)) = PyInt (if st then 1 else 2)
         \<and> Community (state_set self st) = ''private''"
proof -
  from assms have "\<exists>cl. fst (Outlet_get_state ag self (w @ [state_set self st])) = Inr cl"
    by (auto simp: Outlet_get_state_result)
  then obtain cl where "fst (Outlet_get_state ag self (w @ [state_set self st])) = Inr cl" ..
  then have "fst (Outlet_set_state ag self st w) = Inr (py_bool (ag w (state_set self st)))"
    by (rule Outlet_set_state_result)
  then show ?thesis
    by (simp add: Outlet_set_state_world) (simp add: state_set_def set_request_def)
qed

text \<open>
  Outlet 1 of the sample device is switched on: the SET succeeds, the state read back
  is still 2 (off), and the method returns true.
\<close>

theorem set_state_returns_set_outcome_witness:
  "fst (Outlet_set_state demo_agent (demo_outlet ''1'') True []) = Inr True
   \<and> snd (snd (Outlet_set_state demo_agent (demo_outlet ''1'') True [])) =
       [set_request demo_pdu ''sPDUOutletCtl'' ''1'' (PyInt 1) None,
        get_request demo_pdu ''sPDUOutletCtl'' ''1'']
   \<and> py_int (demo_agent [set_request demo_pdu ''sPDUOutletCtl'' ''1'' (PyInt 1) None]
               (get_request demo_pdu ''sPDUOutletCtl'' ''1'')) = Inr 2"
proof -
  let ?o = "demo_outlet ''1''"
  have h1: "py_int (demo_agent ([] @ [state_set ?o True]) (state_get ?o)) = Inr 2"
    by (simp add: demo_agent_def demo_outlet_def state_get_def get_request_def int_of_str_def
        strip_def py_isspace_def digit_of_def)
  have h2: "(2::int) \<in> {1, 2, 3, 4}" by simp
  have s: "py_bool (demo_agent [] (state_set ?o True)) = True"
    by (simp add: demo_agent_def state_set_def set_request_def)
  show ?thesis
    using set_state_returns_set_outcome
      [where ag = demo_agent and w = "[]" and self = ?o and st = True and c = 2, OF h1 h2] h1 s
    by (simp add: state_set_def state_get_def demo_outlet_def)
qed

subsection \<open>Device name and construction: \<open>PDU.set_name\<close>, \<open>PDU.__init__\<close>\<close>

text \<open>
  C4. The device rename, at every name and on every PDU: it raises \<open>NameError\<close> for the
  variable \<open>namevar\<close> and leaves the world as it was, so it issues no SET of the device
  name object and reads nothing back.
\<close>

theorem PDU_set_name_raises:
  "PDU_set_name ag self nm w = (Inl (NameError ''namevar''), w)"
  by (rule PDU_set_name_eq)

text \<open>
  C10. The construction of a PDU with a non-empty name: once the host is resolved, the
  rename is attempted first and raises \<open>NameError\<close>; the constructor ends there, the
  identity is not fetched and no object is produced.
\<close>

theorem PDU_init_name_raises:
  "PDU_init res default_IP ag hostname_arg hostIP_arg (Some (c # cs)) w =
     (case resolve_host res default_IP hostname_arg hostIP_arg of
        Inl e \<Rightarrow> (Inl e, w)
      | Inr self \<Rightarrow> (Inl (NameError ''namevar''), w))"
  by (simp add: PDU_init_def PDU_set_name_eq split: sum.splits)

text \<open>\<open>PDU(name='rack 3')\<close> against the sample device.\<close>

theorem PDU_init_name_raises_witness:
  "PDU_init demo_resolver ''192.168.1.50'' demo_agent None None (Some ''rack 3'') [] =
     (Inl (NameError ''namevar''), [])"
  using PDU_init_name_raises
    [of demo_resolver "''192.168.1.50''" demo_agent None None "CHR ''r''" "''ack 3''" "[]"]
  by (simp add: resolve_host_def demo_resolver_def)

subsection \<open>Identity: \<open>PDU._get_ident\<close>\<close>

text \<open>
  C5, as the code has it. The identity fetch sends six GETs at instance 0, in the order
  model, serial number, hardware revision, firmware revision, date of manufacture, device
  name, and always completes: each attribute is assigned what its GET returned, which is
  \<open>None\<close> for a GET that failed. Nothing is raised and no later GET is skipped.
\<close>

theorem get_ident_six_gets:
  "PDU_get_ident ag self w =
     (let r1 = get_request self ''sPDUIdentModelNumber'' ''0'';
          r2 = get_request self ''sPDUIdentSerialNumber'' ''0'';
          r3 = get_request self ''sPDUIdentHardwareRev'' ''0'';
          r4 = get_request self ''sPDUIdentFirmwareRev'' ''0'';
          r5 = get_request self ''sPDUIdentDateOfManufacture'' ''0'';
          r6 = get_request self ''sPDUMasterConfigPDUName'' ''0''
      in (self\<lparr>model := Some (ag w r1),
                serial := Some (ag (w @ [r1]) r2),
                hw_rev := Some (ag (w @ [r1, r2]) r3),
                fw_rev := Some (ag (w @ [r1, r2, r3]) r4),
                date := Some (ag (w @ [r1, r2, r3, r4]) r5),
                name := Some (ag (w @ [r1, r2, r3, r4, r5]) r6)\<rparr>,
          w @ [r1, r2, r3, r4, r5, r6]))"
  by (rule PDU_get_ident_eq)

text \<open>
  C5 as stated fails: the GET of the serial number fails on the sample device, and the
  construction returns a PDU whose model is set and whose serial number is \<open>None\<close>.
\<close>

theorem get_ident_atomic_counterexample:
  "demo_agent [get_request demo_pdu ''sPDUIdentModelNumber'' ''0'']
     (get_request demo_pdu ''sPDUIdentSerialNumber'' ''0'') = PyNone
   \<and> fst (PDU_init demo_resolver ''192.168.1.50'' demo_agent None None None []) = Inr demo_pdu
   \<and> model demo_pdu = Some (PyStr ''AP7900'')
   \<and> serial demo_pdu = Some PyNone"
  by (simp add: PDU_init_def resolve_host_def demo_resolver_def PDU_get_ident_eq Let_def
        demo_agent_def get_request_def demo_pdu_def)

subsection \<open>Outlet directory: table size and names\<close>

text \<open>
  C7, as the code has it. Nothing is cached: every call of \<open>get_outlet_names\<close> and every
  call of \<open>set_outlet_names\<close> sends the GET of the table size as its first request, and
  sends it once.
\<close>

theorem table_size_fetched_by_every_call:
  "(\<exists>rest. snd (PDU_get_outlet_names ag self w) = w @ table_size_get self # rest
           \<and> filter (\<lambda>r. tag (var r) = ''sPDUOutletConfigTableSize'') rest = [])
   \<and> (\<exists>rest. snd (PDU_set_outlet_names ag self namelist w) = w @ table_size_get self # rest
           \<and> filter (\<lambda>r. tag (var r) = ''sPDUOutletConfigTableSize'') rest = [])"
  by (auto simp: PDU_get_outlet_names_eq PDU_set_outlet_names_eq filter_empty_conv
        outlet_name_get_def outlet_name_set_def get_request_def set_request_def
        split: sum.splits)

text \<open>
  C7 as stated fails: \<open>get_outlet_names\<close> followed by \<open>set_outlet_names\<close> on the same
  PDU object sends the GET of the table size twice.
\<close>

theorem table_size_cached_counterexample:
  "snd (PDU_set_outlet_names demo_agent demo_pdu demo_names
          (snd (PDU_get_outlet_names demo_agent demo_pdu []))) =
     [table_size_get demo_pdu,
      get_request demo_pdu ''sPDUOutletCtlName'' ''1'',
      get_request demo_pdu ''sPDUOutletCtlName'' ''2'',
      get_request demo_pdu ''sPDUOutletCtlName'' ''3'',
      table_size_get demo_pdu,
      set_request demo_pdu ''sPDUOutletName'' ''1'' (PyStr ''Rack Fan'') None,
      set_request demo_pdu ''sPDUOutletName'' ''2'' (PyStr ''TCT'') None,
      set_request demo_pdu ''sPDUOutletName'' ''3'' (PyStr ''gpu2 a'') None]"
  by (simp add: PDU_get_outlet_names_eq PDU_set_outlet_names_eq demo_table_size demo_names_def
        upto_3 outlet_name_get_def outlet_name_set_def str_int_small)

text \<open>
  C8, as the code has it. When the device reports the table size \<open>k\<close>, \<open>get_outlet_names\<close>
  returns a dictionary whose keys are exactly \<open>1..k\<close>, after one GET of the display name
  for each outlet in index order; the entry of index \<open>i\<close> is what the GET of outlet \<open>i\<close>
  returned, \<open>None\<close> when it failed. A failed GET of a name does not end the call.
\<close>

theorem get_outlet_names_mapping:
  assumes "py_int (ag w (table_size_get self)) = Inr k"
  shows "\<exists>names.
           PDU_get_outlet_names ag self w =
             (Inr names, w @ table_size_get self # map (outlet_name_get self) [1..k])
           \<and> dom names = {1..k}
           \<and> (\<forall>i\<in>{1..k}.
                 names i =
                   Some (ag (w @ table_size_get self # map (outlet_name_get self) [1..i - 1])
                            (outlet_name_get self i)))"
  using assms by (auto simp: PDU_get_outlet_names_eq dom_def)

theorem get_outlet_names_mapping_witness:
  "\<exists>names.
     PDU_get_outlet_names demo_agent demo_pdu [] =
       (Inr names,
        [table_size_get demo_pdu,
         get_request demo_pdu ''sPDUOutletCtlName'' ''1'',
         get_request demo_pdu ''sPDUOutletCtlName'' ''2'',
         get_request demo_pdu ''sPDUOutletCtlName'' ''3''])
     \<and> dom names = {1, 2, 3}
     \<and> names 1 = Some (PyStr ''outlet 1'') \<and> names 3 = Some (PyStr ''outlet 3'')"
proof -
  have h: "py_int (demo_agent [] (table_size_get demo_pdu)) = Inr 3"
    by (rule demo_table_size)
  from get_outlet_names_mapping
    [where ag = demo_agent and w = "[]" and self = demo_pdu and k = 3, OF h] obtain names where
    r: "PDU_get_outlet_names demo_agent demo_pdu [] =
          (Inr names, [] @ table_size_get demo_pdu # map (outlet_name_get demo_pdu) [1..3])"
    and d: "dom names = {1..3}"
    and v: "\<forall>i\<in>{1..3}. names i =
              Some (demo_agent ([] @ table_size_get demo_pdu #
                       map (outlet_name_get demo_pdu) [1..i - 1])
                     (outlet_name_get demo_pdu i))"
    by blast
  have v1: "names 1 = Some (PyStr ''outlet 1'')" and v3: "names 3 = Some (PyStr ''outlet 3'')"
    using v by (simp_all add: upto_3 atLeastAtMost_3 demo_agent_def outlet_name_get_def
        get_request_def str_int_small)
  show ?thesis
    using r d v1 v3 by (simp add: upto_3 atLeastAtMost_3 outlet_name_get_def str_int_small)
qed

text \<open>
  C8 as stated fails: the GET of the name of outlet 2 fails on the sample device, and the
  call returns the dictionary of all three indices, with \<open>None\<close> at index 2.
\<close>

theorem get_outlet_names_abort_counterexample:
  "demo_agent [table_size_get demo_pdu, outlet_name_get demo_pdu 1]
     (outlet_name_get demo_pdu 2) = PyNone
   \<and> fst (PDU_get_outlet_names demo_agent demo_pdu []) =
       Inr [1 \<mapsto> PyStr ''outlet 1'', 2 \<mapsto> PyNone, 3 \<mapsto> PyStr ''outlet 3'']"
proof -
  have a: "\<And>hist i. demo_agent hist (outlet_name_get demo_pdu i) =
             (if str_int i = ''2'' then PyNone else PyStr (''outlet '' @ str_int i))"
    by (simp add: demo_agent_def outlet_name_get_def get_request_def)
  have m: "(\<lambda>i::int. if 1 \<le> i \<and> i \<le> 3 then Some (f i) else None) =
             [1 \<mapsto> f 1, 2 \<mapsto> f 2, 3 \<mapsto> f 3]" for f :: "int \<Rightarrow> pyval"
    by (auto simp: fun_eq_iff)
  have "fst (PDU_get_outlet_names demo_agent demo_pdu []) =
          Inr (\<lambda>i. if 1 \<le> i \<and> i \<le> 3
                   then Some (if str_int i = ''2'' then PyNone
                              else PyStr (''outlet '' @ str_int i))
                   else None)"
    by (simp add: PDU_get_outlet_names_eq demo_table_size a cong: if_cong)
  then show ?thesis
    by (simp add: m a str_int_small)
qed

subsection \<open>Credentials\<close>

text \<open>
  C9, as the code has it. The communities are the two literals of the module: every
  request that any method or constructor sends carries \<open>'public'\<close> when it is a GET and
  \<open>'private'\<close> when it is a SET, for every PDU object, every argument and every device.
  No argument, attribute or parameter of the module holds a credential.
\<close>

theorem communities_are_literals:
  "list_all fixed_community (sent w (snd (PDU_get_var ag p v w)))
   \<and> list_all fixed_community (sent w (snd (PDU_get_ident ag p w)))
   \<and> list_all fixed_community (sent w (snd (PDU_set_name ag p nm w)))
   \<and> list_all fixed_community (sent w (snd (PDU_init res d ag h ip arg w)))
   \<and> list_all fixed_community (sent w (snd (PDU_get_outlet_states ag p w)))
   \<and> list_all fixed_community (sent w (snd (PDU_get_pending ag p w)))
   \<and> list_all fixed_community (sent w (snd (PDU_get_outlet_names ag p w)))
   \<and> list_all fixed_community (sent w (snd (PDU_set_outlet_names ag p namelist w)))
   \<and> list_all fixed_community (sent w (snd (Outlet_init ag p num w)))
   \<and> list_all fixed_community (sent w (snd (snd (Outlet_get_name ag outlet w))))
   \<and> list_all fixed_community (sent w (snd (snd (Outlet_set_name ag outlet nm w))))
   \<and> list_all fixed_community (sent w (snd (snd (Outlet_get_state ag outlet w))))
   \<and> list_all fixed_community (sent w (snd (snd (Outlet_set_state ag outlet st w))))"
proof -
  have 1: "list_all fixed_community (sent w (snd (PDU_get_var ag p v w)))"
    by (simp add: PDU_get_var_def snmpget_def Let_def fixed_community_def)
  have 2: "list_all fixed_community (sent w (snd (PDU_get_ident ag p w)))"
    using PDU_get_ident_world [of ag p w] by auto
  have 3: "list_all fixed_community (sent w (snd (PDU_set_name ag p nm w)))"
    by (simp add: PDU_set_name_eq)
  have 4: "list_all fixed_community (sent w (snd (PDU_init res d ag h ip arg w)))"
    using PDU_init_world [of res d ag h ip arg w] by auto
  have 5: "list_all fixed_community (sent w (snd (PDU_get_outlet_states ag p w)))"
    by (simp add: PDU_get_outlet_states_def PDU_get_var_eq)
  have 6: "list_all fixed_community (sent w (snd (PDU_get_pending ag p w)))"
    by (simp add: PDU_get_pending_def PDU_get_var_eq)
  have 7: "list_all fixed_community (sent w (snd (PDU_get_outlet_names ag p w)))"
    by (simp add: PDU_get_outlet_names_eq table_size_get_def outlet_name_get_def
          list_all_iff split: sum.splits)
  have 8: "list_all fixed_community (sent w (snd (PDU_set_outlet_names ag p namelist w)))"
    by (simp add: PDU_set_outlet_names_eq table_size_get_def outlet_name_set_def
          list_all_iff split: sum.splits)
  have 9: "list_all fixed_community (sent w (snd (Outlet_init ag p num w)))"
    using Outlet_init_world [of ag p num w] by auto
  have 10: "list_all fixed_community (sent w (snd (snd (Outlet_get_name ag outlet w))))"
    by (simp add: Outlet_get_name_eq)
  have 11: "list_all fixed_community (sent w (snd (snd (Outlet_set_name ag outlet nm w))))"
    by (simp add: Outlet_set_name_world)
  have 12: "list_all fixed_community (sent w (snd (snd (Outlet_get_state ag outlet w))))"
    by (simp add: Outlet_get_state_world state_get_def)
  have 13: "list_all fixed_community (sent w (snd (snd (Outlet_set_state ag outlet st w))))"
    by (simp add: Outlet_set_state_world state_get_def state_set_def)
  from 1 2 3 4 5 6 7 8 9 10 11 12 13 show ?thesis by blast
qed

text \<open>
  C9 as stated fails: two PDU objects of two deployments, at different addresses, send
  the same two community strings, and neither has a credential of its own to send.
\<close>

theorem communities_configured_counterexample:
  "hostIP demo_pdu = ''192.168.1.50'' \<and> hostIP other_pdu = ''10.0.0.7''
   \<and> map Community (snd (PDU_set_outlet_names demo_agent demo_pdu demo_names [])) =
       [''public'', ''private'', ''private'', ''private'']
   \<and> map Community (snd (PDU_set_outlet_names demo_agent other_pdu demo_names [])) =
       [''public'', ''private'', ''private'', ''private'']"
  by (simp add: PDU_set_outlet_names_eq demo_table_size demo_names_def upto_3)
     (simp_all add: table_size_get_def outlet_name_set_def get_request_def set_request_def
        demo_pdu_def other_pdu_def)

end
